theory Spec2Isabelle
  imports Main "HOL-Library.Sublist"
begin

section \<open>Python values\<close>

text \<open>
  Exceptions are values. \<open>RuntimeError\<close> is what \<open>load_config\<close> raises itself;
  \<open>Exception\<close> stands for anything raised by a collaborator (the Telegram client, the
  file system), with an opaque description. Both are instances of Python's
  \<open>Exception\<close>, which is what the handlers of lines 179 and 203 catch.
\<close>

datatype exn = RuntimeError string | Exception string

text \<open>
  Truthiness of an \<open>Optional[str]\<close>: \<open>None\<close> and the empty string are falsy.
  \<open>py_or v d\<close> is \<open>v or d\<close> for a string default, \<open>or_None v\<close> is \<open>v or None\<close>.
\<close>

definition truthy :: "string option \<Rightarrow> bool" where
  "truthy v = (case v of None \<Rightarrow> False | Some s \<Rightarrow> s \<noteq> [])"

definition py_or :: "string option \<Rightarrow> string \<Rightarrow> string" where
  "py_or v d = (case v of None \<Rightarrow> d | Some s \<Rightarrow> if s = [] then d else s)"

definition or_None :: "string option \<Rightarrow> string option" where
  "or_None v = (case v of None \<Rightarrow> None | Some s \<Rightarrow> if s = [] then None else Some s)"

section \<open>Configuration\<close>

text \<open>
  The target chat is an \<open>int\<close> when the setting parses as one, else the string itself
  (lines 116--121). The material file setting is \<open>None\<close>, the empty string that
  \<open>os.getenv\<close> returned (left as it is, line 125 being false for it), or a
  \<open>pathlib.Path\<close>; only a \<open>Path\<close> is truthy.
\<close>

datatype chat_id = IntId int | StrId string

datatype file_setting = Unset | EmptyStr | Path string

record config =
  token :: string
  target_chat_id :: chat_id
  material_text :: "string option"
  material_file_path :: file_setting
  channel_invite_link :: "string option"

text \<open>
  What \<open>load_config\<close> reads from outside: \<open>load_dotenv\<close> is the answer of the
  call \<open>load_dotenv()\<close> of line 91, \<open>None\<close> when it returns and the exception when
  it raises (a \<open>.env\<close> file that cannot be read or decoded; nothing guards the call);
  \<open>getenv\<close> is \<open>os.getenv\<close> once \<open>load_dotenv()\<close> has returned;
  \<open>int_str\<close> is the built-in \<open>int\<close> on a string,
  \<open>None\<close> when it raises \<open>ValueError\<close>; \<open>expanduser p\<close> is
  \<open>Path(p).expanduser()\<close>, which raises \<open>RuntimeError\<close> when the path starts with
  \<open>~\<close> and the home directory cannot be resolved.
\<close>

record os_env =
  load_dotenv :: "exn option"
  getenv :: "string \<Rightarrow> string option"
  int_str :: "string \<Rightarrow> int option"
  expanduser :: "string \<Rightarrow> exn + string"

definition TOKEN_MISSING :: exn where
  "TOKEN_MISSING =
     RuntimeError ''TELEGRAM_BOT_TOKEN must be set as an environment variable or in .env''"

definition TARGET_MISSING :: exn where
  "TARGET_MISSING =
     RuntimeError ''TARGET_CHAT_ID must be set as an environment variable or in .env''"

definition MATERIAL_MISSING :: exn where
  "MATERIAL_MISSING =
     RuntimeError ''Either MATERIAL_TEXT or MATERIAL_FILE_PATH must be set to deliver material''"

definition load_config :: "os_env \<Rightarrow> exn + config" where
  "load_config os =
     (case load_dotenv os of
        Some e \<Rightarrow> Inl e
      | None \<Rightarrow>
     (let tok = getenv os ''TELEGRAM_BOT_TOKEN'';
          tgt = getenv os ''TARGET_CHAT_ID'';
          txt = getenv os ''MATERIAL_TEXT'';
          fp = getenv os ''MATERIAL_FILE_PATH'';
          lnk = getenv os ''CHANNEL_INVITE_LINK''
      in if \<not> truthy tok then Inl TOKEN_MISSING
         else if \<not> truthy tgt then Inl TARGET_MISSING
         else if \<not> (truthy txt \<or> truthy fp) then Inl MATERIAL_MISSING
         else
           (let cid = (case int_str os (the tgt) of
                         Some i \<Rightarrow> IntId i
                       | None \<Rightarrow> StrId (the tgt));
                cfg = \<lparr>token = the tok, target_chat_id = cid, material_text = txt,
                        material_file_path = Unset, channel_invite_link = lnk\<rparr>
            in case fp of
                 None \<Rightarrow> Inr cfg
               | Some p \<Rightarrow>
                   if p = [] then Inr (cfg\<lparr>material_file_path := EmptyStr\<rparr>)
                   else (case expanduser os p of
                           Inl e \<Rightarrow> Inl e
                         | Inr q \<Rightarrow> Inr (cfg\<lparr>material_file_path := Path q\<rparr>)))))"

section \<open>The Telegram client, the file system and the log\<close>

text \<open>
  Modelled from the spec: the enumeration \<open>telegram.constants.ChatMemberStatus\<close> is
  declared by the python-telegram-bot library (v20+, as the module's docstring says), not
  by this repository. Its members are the statuses the spec lists (owner, administrator,
  member, restricted, left, banned); a status string the library does not know stays a
  plain string, here \<open>Unrecognized\<close>. The class has no attribute \<open>CREATOR\<close>.
\<close>

datatype ChatMemberStatus =
  OWNER | ADMINISTRATOR | MEMBER | RESTRICTED | LEFT | BANNED | Unrecognized string

definition ChatMemberStatus_attrs :: "(string \<times> ChatMemberStatus) list" where
  "ChatMemberStatus_attrs =
     [(''ADMINISTRATOR'', ADMINISTRATOR), (''BANNED'', BANNED), (''LEFT'', LEFT),
      (''MEMBER'', MEMBER), (''OWNER'', OWNER), (''RESTRICTED'', RESTRICTED)]"

definition hasattr :: "(string \<times> 'a) list \<Rightarrow> string \<Rightarrow> bool" where
  "hasattr attrs a = (case map_of attrs a of None \<Rightarrow> False | Some v \<Rightarrow> True)"

text \<open>
  The list of line 162--167. Its elements are Python values, so \<open>None\<close> can be one of
  them: the last element is \<open>ChatMemberStatus.CREATOR\<close> when the class has that
  attribute and \<open>None\<close> otherwise. A status is a \<open>str\<close>, never \<open>None\<close>.
\<close>

definition subscribed_statuses :: "ChatMemberStatus option list" where
  "subscribed_statuses =
     [Some MEMBER, Some ADMINISTRATOR, Some OWNER,
      if hasattr ChatMemberStatus_attrs ''CREATOR''
      then map_of ChatMemberStatus_attrs ''CREATOR'' else None]"

definition is_subscribed :: "ChatMemberStatus \<Rightarrow> bool" where
  "is_subscribed status = (Some status \<in> set subscribed_statuses)"

datatype parse_mode = HTML

text \<open>
  Everything the handler calls outside itself, with the answer of each call: a result,
  or the exception raised. \<open>send_message\<close> takes first the number of \<open>send_message\<close>
  calls the handler has already made for this request, so that a second call may
  answer differently from the first.
\<close>

record world =
  get_chat_member :: "chat_id \<Rightarrow> int \<Rightarrow> exn + ChatMemberStatus"
  Path_exists :: "string \<Rightarrow> exn + bool"
  Path_open :: "string \<Rightarrow> exn option"
  Path_name :: "string \<Rightarrow> string"
  send_document :: "int \<Rightarrow> string \<Rightarrow> string \<Rightarrow> string option \<Rightarrow> exn option"
  send_message :: "nat \<Rightarrow> int \<Rightarrow> string \<Rightarrow> parse_mode option \<Rightarrow> exn option"

text \<open>The calls the handler makes, in order, each with its answer.\<close>

datatype event =
    GetChatMember chat_id int "exn + ChatMemberStatus"
  | LogDebug int ChatMemberStatus chat_id
  | Exists string "exn + bool"
  | Open string "exn option"
  | SendDocument int string string "string option" "exn option"
  | Close string
  | LogException exn
  | SendMessage int string "parse_mode option" "exn option"
  | LogWarning int exn

text \<open>
  The handler returns \<open>None\<close> on every path. The label says which path ended, with
  the names of the spec's \<open>DeliveryOutcome\<close>; the \<open>return\<close> of line 185 is
  \<open>MaterialSent File\<close>, as in the spec, also after a failed document send.
\<close>

datatype kind = Text | File

datatype DeliveryOutcome = MaterialSent kind | PromptSent | ErrorReported

section \<open>The message texts\<close>

text \<open>
  The literals of the source are Russian; they are given as their UTF-8 bytes.
\<close>

text \<open>
  \<open>FILE_ERROR_TEXT\<close>: the notice sent when the document could not be sent
  (line 183); in English: ``An error occurred while sending the file. Try again later.''
\<close>

definition FILE_ERROR_TEXT :: string where
  "FILE_ERROR_TEXT =
   [CHR 0xD0, CHR 0x9F, CHR 0xD1, CHR 0x80, CHR 0xD0, CHR 0xBE, CHR 0xD0, CHR 0xB8, CHR 0xD0,
    CHR 0xB7, CHR 0xD0, CHR 0xBE, CHR 0xD1, CHR 0x88, CHR 0xD0, CHR 0xBB, CHR 0xD0, CHR 0xB0,
    CHR 0x20, CHR 0xD0, CHR 0xBE, CHR 0xD1, CHR 0x88, CHR 0xD0, CHR 0xB8, CHR 0xD0, CHR 0xB1,
    CHR 0xD0, CHR 0xBA, CHR 0xD0, CHR 0xB0, CHR 0x20, CHR 0xD0, CHR 0xBF, CHR 0xD1, CHR 0x80,
    CHR 0xD0, CHR 0xB8, CHR 0x20, CHR 0xD0, CHR 0xBE, CHR 0xD1, CHR 0x82, CHR 0xD0, CHR 0xBF,
    CHR 0xD1, CHR 0x80, CHR 0xD0, CHR 0xB0, CHR 0xD0, CHR 0xB2, CHR 0xD0, CHR 0xBA, CHR 0xD0,
    CHR 0xB5, CHR 0x20, CHR 0xD1, CHR 0x84, CHR 0xD0, CHR 0xB0, CHR 0xD0, CHR 0xB9, CHR 0xD0,
    CHR 0xBB, CHR 0xD0, CHR 0xB0, CHR 0x2E, CHR 0x20, CHR 0xD0, CHR 0x9F, CHR 0xD0, CHR 0xBE,
    CHR 0xD0, CHR 0xBF, CHR 0xD1, CHR 0x80, CHR 0xD0, CHR 0xBE, CHR 0xD0, CHR 0xB1, CHR 0xD1,
    CHR 0x83, CHR 0xD0, CHR 0xB9, CHR 0xD1, CHR 0x82, CHR 0xD0, CHR 0xB5, CHR 0x20, CHR 0xD0,
    CHR 0xBF, CHR 0xD0, CHR 0xBE, CHR 0xD0, CHR 0xB7, CHR 0xD0, CHR 0xB6, CHR 0xD0, CHR 0xB5,
    CHR 0x2E]"

text \<open>
  \<open>DEFAULT_MATERIAL_TEXT\<close>: the default acknowledgement used when
  \<open>material_text\<close> is falsy (line 189); in English: ``Thanks for
  subscribing! Here is your material.''
\<close>

definition DEFAULT_MATERIAL_TEXT :: string where
  "DEFAULT_MATERIAL_TEXT =
   [CHR 0xD0, CHR 0xA1, CHR 0xD0, CHR 0xBF, CHR 0xD0, CHR 0xB0, CHR 0xD1, CHR 0x81, CHR 0xD0,
    CHR 0xB8, CHR 0xD0, CHR 0xB1, CHR 0xD0, CHR 0xBE, CHR 0x20, CHR 0xD0, CHR 0xB7, CHR 0xD0,
    CHR 0xB0, CHR 0x20, CHR 0xD0, CHR 0xBF, CHR 0xD0, CHR 0xBE, CHR 0xD0, CHR 0xB4, CHR 0xD0,
    CHR 0xBF, CHR 0xD0, CHR 0xB8, CHR 0xD1, CHR 0x81, CHR 0xD0, CHR 0xBA, CHR 0xD1, CHR 0x83,
    CHR 0x21, CHR 0x20, CHR 0xD0, CHR 0x92, CHR 0xD0, CHR 0xBE, CHR 0xD1, CHR 0x82, CHR 0x20,
    CHR 0xD0, CHR 0xB2, CHR 0xD0, CHR 0xB0, CHR 0xD1, CHR 0x88, CHR 0x20, CHR 0xD0, CHR 0xBC,
    CHR 0xD0, CHR 0xB0, CHR 0xD1, CHR 0x82, CHR 0xD0, CHR 0xB5, CHR 0xD1, CHR 0x80, CHR 0xD0,
    CHR 0xB8, CHR 0xD0, CHR 0xB0, CHR 0xD0, CHR 0xBB, CHR 0x2E]"

text \<open>
  \<open>SUBSCRIBE_PROMPT\<close>: the prompt for a user who is not subscribed (line
  194); in English: ``To get the material, please subscribe to the channel.''
\<close>

definition SUBSCRIBE_PROMPT :: string where
  "SUBSCRIBE_PROMPT =
   [CHR 0xD0, CHR 0xA7, CHR 0xD1, CHR 0x82, CHR 0xD0, CHR 0xBE, CHR 0xD0, CHR 0xB1, CHR 0xD1,
    CHR 0x8B, CHR 0x20, CHR 0xD0, CHR 0xBF, CHR 0xD0, CHR 0xBE, CHR 0xD0, CHR 0xBB, CHR 0xD1,
    CHR 0x83, CHR 0xD1, CHR 0x87, CHR 0xD0, CHR 0xB8, CHR 0xD1, CHR 0x82, CHR 0xD1, CHR 0x8C,
    CHR 0x20, CHR 0xD0, CHR 0xBC, CHR 0xD0, CHR 0xB0, CHR 0xD1, CHR 0x82, CHR 0xD0, CHR 0xB5,
    CHR 0xD1, CHR 0x80, CHR 0xD0, CHR 0xB8, CHR 0xD0, CHR 0xB0, CHR 0xD0, CHR 0xBB, CHR 0x2C,
    CHR 0x20, CHR 0xD0, CHR 0xBF, CHR 0xD0, CHR 0xBE, CHR 0xD0, CHR 0xB6, CHR 0xD0, CHR 0xB0,
    CHR 0xD0, CHR 0xBB, CHR 0xD1, CHR 0x83, CHR 0xD0, CHR 0xB9, CHR 0xD1, CHR 0x81, CHR 0xD1,
    CHR 0x82, CHR 0xD0, CHR 0xB0, CHR 0x2C, CHR 0x20, CHR 0xD0, CHR 0xBF, CHR 0xD0, CHR 0xBE,
    CHR 0xD0, CHR 0xB4, CHR 0xD0, CHR 0xBF, CHR 0xD0, CHR 0xB8, CHR 0xD1, CHR 0x88, CHR 0xD0,
    CHR 0xB8, CHR 0xD1, CHR 0x82, CHR 0xD0, CHR 0xB5, CHR 0xD1, CHR 0x81, CHR 0xD1, CHR 0x8C,
    CHR 0x20, CHR 0xD0, CHR 0xBD, CHR 0xD0, CHR 0xB0, CHR 0x20, CHR 0xD0, CHR 0xBA, CHR 0xD0,
    CHR 0xB0, CHR 0xD0, CHR 0xBD, CHR 0xD0, CHR 0xB0, CHR 0xD0, CHR 0xBB, CHR 0x2E]"

text \<open>
  \<open>CANNOT_VERIFY_TEXT\<close>: the reply of the outer handler (line 207); in
  English: ``Could not verify your subscription. Perhaps you are not subscribed to the
  channel.''
\<close>

definition CANNOT_VERIFY_TEXT :: string where
  "CANNOT_VERIFY_TEXT =
   [CHR 0xD0, CHR 0x9D, CHR 0xD0, CHR 0xB5, CHR 0x20, CHR 0xD1, CHR 0x83, CHR 0xD0, CHR 0xB4,
    CHR 0xD0, CHR 0xB0, CHR 0xD0, CHR 0xBB, CHR 0xD0, CHR 0xBE, CHR 0xD1, CHR 0x81, CHR 0xD1,
    CHR 0x8C, CHR 0x20, CHR 0xD0, CHR 0xBF, CHR 0xD1, CHR 0x80, CHR 0xD0, CHR 0xBE, CHR 0xD0,
    CHR 0xB2, CHR 0xD0, CHR 0xB5, CHR 0xD1, CHR 0x80, CHR 0xD0, CHR 0xB8, CHR 0xD1, CHR 0x82,
    CHR 0xD1, CHR 0x8C, CHR 0x20, CHR 0xD0, CHR 0xB2, CHR 0xD0, CHR 0xB0, CHR 0xD1, CHR 0x88,
    CHR 0xD1, CHR 0x83, CHR 0x20, CHR 0xD0, CHR 0xBF, CHR 0xD0, CHR 0xBE, CHR 0xD0, CHR 0xB4,
    CHR 0xD0, CHR 0xBF, CHR 0xD0, CHR 0xB8, CHR 0xD1, CHR 0x81, CHR 0xD0, CHR 0xBA, CHR 0xD1,
    CHR 0x83, CHR 0x2E, CHR 0x20, CHR 0xD0, CHR 0x92, CHR 0xD0, CHR 0xBE, CHR 0xD0, CHR 0xB7,
    CHR 0xD0, CHR 0xBC, CHR 0xD0, CHR 0xBE, CHR 0xD0, CHR 0xB6, CHR 0xD0, CHR 0xBD, CHR 0xD0,
    CHR 0xBE, CHR 0x2C, CHR 0x20, CHR 0xD0, CHR 0xB2, CHR 0xD1, CHR 0x8B, CHR 0x20, CHR 0xD0,
    CHR 0xBD, CHR 0xD0, CHR 0xB5, CHR 0x20, CHR 0xD0, CHR 0xBF, CHR 0xD0, CHR 0xBE, CHR 0xD0,
    CHR 0xB4, CHR 0xD0, CHR 0xBF, CHR 0xD0, CHR 0xB8, CHR 0xD1, CHR 0x81, CHR 0xD0, CHR 0xB0,
    CHR 0xD0, CHR 0xBD, CHR 0xD1, CHR 0x8B, CHR 0x20, CHR 0xD0, CHR 0xBD, CHR 0xD0, CHR 0xB0,
    CHR 0x20, CHR 0xD0, CHR 0xBA, CHR 0xD0, CHR 0xB0, CHR 0xD0, CHR 0xBD, CHR 0xD0, CHR 0xB0,
    CHR 0xD0, CHR 0xBB, CHR 0x2E]"

definition with_link :: "string \<Rightarrow> string option \<Rightarrow> string" where
  "with_link reply link =
     (case link of
        None \<Rightarrow> reply
      | Some l \<Rightarrow> if l = [] then reply else reply @ [CHR 0x0A] @ l)"

section \<open>The /get handler\<close>

text \<open>
  A run is the trace of calls, the number of \<open>send_message\<close> calls made, and how the
  block ended: \<open>Inl e\<close> when the exception \<open>e\<close> left it.
\<close>

type_synonym run = "event list \<times> nat \<times> (exn + DeliveryOutcome)"

definition after :: "event list \<Rightarrow> run \<Rightarrow> run" where
  "after pre r = (case r of (tr, n, res) \<Rightarrow> (pre @ tr, n, res))"

text \<open>Lines 171--185: the file branch, with its own handler.\<close>

definition send_file :: "world \<Rightarrow> config \<Rightarrow> int \<Rightarrow> string \<Rightarrow> run" where
  "send_file w cfg user_id p =
     (let caption = or_None (material_text cfg);
          attempt =
            (case Path_open w p of
               Some e \<Rightarrow> ([Open p (Some e)], Some e)
             | None \<Rightarrow>
                 (let r = send_document w user_id p (Path_name w p) caption
                  in ([Open p None, SendDocument user_id p (Path_name w p) caption r, Close p],
                      r)))
      in case snd attempt of
           None \<Rightarrow> (fst attempt, 0, Inr (MaterialSent File))
         | Some e \<Rightarrow>
             (let r = send_message w 0 user_id FILE_ERROR_TEXT None
              in (fst attempt @ [LogException e, SendMessage user_id FILE_ERROR_TEXT None r], 1,
                  case r of None \<Rightarrow> Inr (MaterialSent File) | Some e' \<Rightarrow> Inl e')))"

text \<open>Lines 187--190: the text branch.\<close>

definition send_text :: "world \<Rightarrow> config \<Rightarrow> int \<Rightarrow> run" where
  "send_text w cfg user_id =
     (let text = py_or (material_text cfg) DEFAULT_MATERIAL_TEXT;
          r = send_message w 0 user_id text None
      in ([SendMessage user_id text None r], 1,
          case r of None \<Rightarrow> Inr (MaterialSent Text) | Some e \<Rightarrow> Inl e))"

text \<open>Lines 192--202: the reply to a user who is not subscribed.\<close>

definition send_prompt :: "world \<Rightarrow> config \<Rightarrow> int \<Rightarrow> run" where
  "send_prompt w cfg user_id =
     (let reply = with_link SUBSCRIBE_PROMPT (channel_invite_link cfg);
          r = send_message w 0 user_id reply (Some HTML)
      in ([SendMessage user_id reply (Some HTML) r], 1,
          case r of None \<Rightarrow> Inr PromptSent | Some e \<Rightarrow> Inl e))"

text \<open>Lines 150--202: the body of the outer \<open>try\<close>.\<close>

definition try_body :: "world \<Rightarrow> config \<Rightarrow> int \<Rightarrow> run" where
  "try_body w cfg user_id =
     (let q = get_chat_member w (target_chat_id cfg) user_id
      in case q of
           Inl e \<Rightarrow> ([GetChatMember (target_chat_id cfg) user_id q], 0, Inl e)
         | Inr status \<Rightarrow>
             after [GetChatMember (target_chat_id cfg) user_id q,
                    LogDebug user_id status (target_chat_id cfg)]
               (if is_subscribed status then
                  (case material_file_path cfg of
                     Path p \<Rightarrow>
                       (case Path_exists w p of
                          Inl e \<Rightarrow> ([Exists p (Inl e)], 0, Inl e)
                        | Inr found \<Rightarrow>
                            after [Exists p (Inr found)]
                              (if found then send_file w cfg user_id p
                               else send_text w cfg user_id))
                   | _ \<Rightarrow> send_text w cfg user_id)
                else send_prompt w cfg user_id))"

text \<open>Lines 140--214: the handler, with the outer \<open>except Exception\<close>.\<close>

definition get_material :: "world \<Rightarrow> config \<Rightarrow> int \<Rightarrow> event list \<times> (exn + DeliveryOutcome)" where
  "get_material w cfg user_id =
     (case try_body w cfg user_id of
        (tr, n, Inr out) \<Rightarrow> (tr, Inr out)
      | (tr, n, Inl exc) \<Rightarrow>
          (let reply = with_link CANNOT_VERIFY_TEXT (channel_invite_link cfg);
               r = send_message w n user_id reply None
           in (tr @ [LogWarning user_id exc, SendMessage user_id reply None r],
               case r of None \<Rightarrow> Inr ErrorReported | Some e \<Rightarrow> Inl e)))"

section \<open>Observations on a trace\<close>

text \<open>
  \<open>sends\<close> keeps the send operations of a trace, \<open>delivered\<close> those of them that
  did not raise, and \<open>message_texts\<close> the text of every \<open>send_message\<close> call.
\<close>

fun is_send :: "event \<Rightarrow> bool" where
  "is_send (SendDocument u p f c r) = True"
| "is_send (SendMessage u t m r) = True"
| "is_send _ = False"

fun is_delivered :: "event \<Rightarrow> bool" where
  "is_delivered (SendDocument u p f c r) = (r = None)"
| "is_delivered (SendMessage u t m r) = (r = None)"
| "is_delivered _ = False"

fun message_text :: "event \<Rightarrow> string option" where
  "message_text (SendMessage u t m r) = Some t"
| "message_text _ = None"

definition sends :: "event list \<Rightarrow> event list" where
  "sends tr = filter is_send tr"

definition delivered :: "event list \<Rightarrow> event list" where
  "delivered tr = filter is_delivered tr"

definition message_texts :: "event list \<Rightarrow> string list" where
  "message_texts tr = List.map_filter message_text tr"

text \<open>
  A run of a block is settled when it made at most two send calls and, if it ended
  normally, exactly one of them was delivered, and none if it raised.
\<close>

definition settled :: "run \<Rightarrow> bool" where
  "settled r =
     (case r of (tr, n, res) \<Rightarrow>
        length (sends tr) \<le> 2 \<and>
        (case res of
           Inr out \<Rightarrow> length (delivered tr) = 1
         | Inl e \<Rightarrow> delivered tr = []))"

section \<open>Example inputs\<close>

text \<open>
  The configuration of the spec's example scenario, and the same with a material file.
\<close>

definition example_config :: config where
  "example_config =
     \<lparr>token = ''123456:ABCDEF'', target_chat_id = IntId (- 100123),
      material_text = Some ''Thanks!'', material_file_path = Unset,
      channel_invite_link = Some ''https://t.me/x''\<rparr>"

definition file_config :: config where
  "file_config = example_config\<lparr>material_file_path := Path ''material.pdf''\<rparr>"

text \<open>
  \<open>world_of status\<close> is a world where every call succeeds, the user has the given
  status and the file exists. The others change one collaborator each: every
  \<open>send_message\<close> raises, only the first one raises, \<open>send_document\<close> raises, opening
  the file raises (the path names a directory), the file is gone, the membership query
  raises.
\<close>

definition world_of :: "ChatMemberStatus \<Rightarrow> world" where
  "world_of status =
     \<lparr>get_chat_member = (\<lambda>chat user. Inr status),
      Path_exists = (\<lambda>p. Inr True),
      Path_open = (\<lambda>p. None),
      Path_name = (\<lambda>p. p),
      send_document = (\<lambda>user p name caption. None),
      send_message = (\<lambda>n user text mode. None)\<rparr>"

definition network_down :: exn where
  "network_down = Exception ''NetworkError''"

definition sends_fail :: "world \<Rightarrow> world" where
  "sends_fail w = w\<lparr>send_message := (\<lambda>n user text mode. Some network_down)\<rparr>"

definition first_send_fails :: "world \<Rightarrow> world" where
  "first_send_fails w =
     w\<lparr>send_message := (\<lambda>n user text mode. if n = 0 then Some network_down else None)\<rparr>"

definition document_fails :: "world \<Rightarrow> world" where
  "document_fails w = w\<lparr>send_document := (\<lambda>user p name caption. Some network_down)\<rparr>"

definition open_fails :: "world \<Rightarrow> world" where
  "open_fails w = w\<lparr>Path_open := (\<lambda>p. Some (Exception ''IsADirectoryError''))\<rparr>"

definition file_missing :: "world \<Rightarrow> world" where
  "file_missing w = w\<lparr>Path_exists := (\<lambda>p. Inr False)\<rparr>"

definition query_fails :: "world \<Rightarrow> world" where
  "query_fails w = w\<lparr>get_chat_member := (\<lambda>chat user. Inl (Exception ''BadRequest''))\<rparr>"

text \<open>
  \<open>unset os var\<close> is the environment \<open>os\<close> without the variable \<open>var\<close>.
  \<open>example_env\<close> sets the variables of the module docstring's example;
  \<open>unknown_home_env\<close> names a material file under the home directory of a user the
  system does not know, for which \<open>Path.expanduser\<close> raises. In both
  \<open>load_dotenv()\<close> returns.
\<close>

definition unset :: "os_env \<Rightarrow> string \<Rightarrow> os_env" where
  "unset os var = os\<lparr>getenv := (getenv os)(var := None)\<rparr>"

definition example_env :: os_env where
  "example_env =
     \<lparr>load_dotenv = None,
      getenv = map_of
        [(''TELEGRAM_BOT_TOKEN'', ''123456:ABCDEF''), (''TARGET_CHAT_ID'', ''@my_channel''),
         (''MATERIAL_TEXT'', ''Thanks!''), (''CHANNEL_INVITE_LINK'', ''https://t.me/x'')],
      int_str = (\<lambda>s. None),
      expanduser = (\<lambda>p. Inr p)\<rparr>"

definition no_home :: exn where
  "no_home = RuntimeError ''Could not determine home directory.''"

definition unknown_home_env :: os_env where
  "unknown_home_env =
     \<lparr>load_dotenv = None,
      getenv = map_of
        [(''TELEGRAM_BOT_TOKEN'', ''123456:ABCDEF''), (''TARGET_CHAT_ID'', ''@my_channel''),
         (''MATERIAL_FILE_PATH'', ''~nosuchuser/material.pdf'')],
      int_str = (\<lambda>s. None),
      expanduser = (\<lambda>p. if take 1 p = ''~'' then Inl no_home else Inr p)\<rparr>"

lemmas handler_defs =
  get_material_def try_body_def after_def send_file_def send_text_def send_prompt_def Let_def

lemmas world_defs =
  world_of_def sends_fail_def first_send_fails_def document_fails_def open_fails_def
  file_missing_def query_fails_def network_down_def

lemmas config_defs = example_config_def file_config_def

section \<open>The paths through the handler\<close>

text \<open>The membership test of line 162 accepts exactly three statuses.\<close>

lemma is_subscribed_iff:
  "is_subscribed s \<longleftrightarrow> s = MEMBER \<or> s = ADMINISTRATOR \<or> s = OWNER"
  by (auto simp: is_subscribed_def subscribed_statuses_def hasattr_def ChatMemberStatus_attrs_def)

lemma try_body_query_fails:
  assumes "get_chat_member w (target_chat_id cfg) user_id = Inl e"
  shows "try_body w cfg user_id = ([GetChatMember (target_chat_id cfg) user_id (Inl e)], 0, Inl e)"
  using assms by (simp add: try_body_def)

lemma try_body_not_subscribed:
  assumes "get_chat_member w (target_chat_id cfg) user_id = Inr s" and "\<not> is_subscribed s"
  shows "try_body w cfg user_id =
           after [GetChatMember (target_chat_id cfg) user_id (Inr s),
                  LogDebug user_id s (target_chat_id cfg)] (send_prompt w cfg user_id)"
  using assms by (simp add: try_body_def)

lemma try_body_subscribed:
  assumes "get_chat_member w (target_chat_id cfg) user_id = Inr s" and "is_subscribed s"
  shows "try_body w cfg user_id =
           after [GetChatMember (target_chat_id cfg) user_id (Inr s),
                  LogDebug user_id s (target_chat_id cfg)]
             (case material_file_path cfg of
                Path p \<Rightarrow>
                  (case Path_exists w p of
                     Inl e \<Rightarrow> ([Exists p (Inl e)], 0, Inl e)
                   | Inr found \<Rightarrow>
                       after [Exists p (Inr found)]
                         (if found then send_file w cfg user_id p
                          else send_text w cfg user_id))
              | _ \<Rightarrow> send_text w cfg user_id)"
  using assms by (simp add: try_body_def)

text \<open>Every block of the \<open>try\<close> body is settled, and so is the body.\<close>

lemma settled_send_text: "settled (send_text w cfg user_id)"
  by (simp add: settled_def send_text_def sends_def delivered_def Let_def split: option.splits)

lemma settled_send_prompt: "settled (send_prompt w cfg user_id)"
  by (simp add: settled_def send_prompt_def sends_def delivered_def Let_def
      split: option.splits)

lemma settled_send_file: "settled (send_file w cfg user_id p)"
  by (simp add: settled_def send_file_def sends_def delivered_def Let_def split: option.splits)

lemma settled_after:
  assumes "settled r" and "sends pre = []"
  shows "settled (after pre r)"
proof -
  from assms(2) have "delivered pre = []"
    unfolding sends_def delivered_def
    by (induction pre) (auto split: if_splits elim: is_delivered.elims)
  with assms show ?thesis
    by (cases r) (simp add: settled_def after_def sends_def delivered_def)
qed

lemma settled_try_body: "settled (try_body w cfg user_id)"
proof (cases "get_chat_member w (target_chat_id cfg) user_id")
  case (Inl e)
  then show ?thesis
    by (simp add: try_body_query_fails settled_def sends_def delivered_def)
next
  case (Inr s)
  show ?thesis
  proof (cases "is_subscribed s")
    case False
    with Inr show ?thesis
      by (simp add: try_body_not_subscribed settled_after settled_send_prompt sends_def)
  next
    case True
    have "settled (case material_file_path cfg of
                Path p \<Rightarrow>
                  (case Path_exists w p of
                     Inl e \<Rightarrow> ([Exists p (Inl e)], 0, Inl e)
                   | Inr found \<Rightarrow>
                       after [Exists p (Inr found)]
                         (if found then send_file w cfg user_id p
                          else send_text w cfg user_id))
              | _ \<Rightarrow> send_text w cfg user_id)"
    proof (cases "material_file_path cfg")
      case (Path p)
      show ?thesis
      proof (cases "Path_exists w p")
        case (Inl e)
        with Path show ?thesis
          by (simp add: settled_def sends_def delivered_def)
      next
        case (Inr found)
        with Path show ?thesis
          by (simp add: settled_after settled_send_file settled_send_text sends_def)
      qed
    qed (simp_all add: settled_send_text)
    with Inr True show ?thesis
      by (simp add: try_body_subscribed settled_after sends_def)
  qed
qed

section \<open>Users who are not subscribed\<close>

text \<open>
  Claim C1, as amended. For every status outside \<open>{OWNER, ADMINISTRATOR, MEMBER}\<close>
  (the members \<open>LEFT\<close>, \<open>BANNED\<close> and \<open>RESTRICTED\<close> as well as any
  unrecognized value) the handler never sends the material: it touches no file and sends
  no document, and its first and, when that call succeeds, only send is the subscription
  prompt, with parse mode HTML; it then ends with \<open>PromptSent\<close>. When the prompt's
  \<open>send_message\<close> raises, the outer handler logs a warning and sends the
  could-not-verify reply; the handler ends with \<open>ErrorReported\<close> when that call
  succeeds, and raises that call's exception when it fails too.
\<close>

theorem not_subscribed_never_gets_material:
  assumes "get_chat_member w (target_chat_id cfg) user_id = Inr s"
    and "s \<notin> {OWNER, ADMINISTRATOR, MEMBER}"
  shows "get_material w cfg user_id =
     (let chat = target_chat_id cfg;
          prompt = with_link SUBSCRIBE_PROMPT (channel_invite_link cfg);
          r = send_message w 0 user_id prompt (Some HTML);
          tr = [GetChatMember chat user_id (Inr s), LogDebug user_id s chat,
                SendMessage user_id prompt (Some HTML) r]
      in case r of
           None \<Rightarrow> (tr, Inr PromptSent)
         | Some e \<Rightarrow>
             (let reply = with_link CANNOT_VERIFY_TEXT (channel_invite_link cfg);
                  r' = send_message w 1 user_id reply None
              in (tr @ [LogWarning user_id e, SendMessage user_id reply None r'],
                  case r' of None \<Rightarrow> Inr ErrorReported | Some e' \<Rightarrow> Inl e')))"
proof -
  from assms(2) have "\<not> is_subscribed s"
    by (simp add: is_subscribed_iff)
  with assms(1) have "try_body w cfg user_id =
      after [GetChatMember (target_chat_id cfg) user_id (Inr s),
             LogDebug user_id s (target_chat_id cfg)] (send_prompt w cfg user_id)"
    by (rule try_body_not_subscribed)
  then show ?thesis
    by (simp add: get_material_def after_def send_prompt_def Let_def split: option.splits)
qed

text \<open>
  The spec's example: user B has status \<open>LEFT\<close> and gets the prompt with the invite
  link. An unrecognized status gets the same.
\<close>

theorem not_subscribed_never_gets_material_witness:
  "get_material (world_of LEFT) example_config 7 =
     ([GetChatMember (IntId (- 100123)) 7 (Inr LEFT), LogDebug 7 LEFT (IntId (- 100123)),
       SendMessage 7 (SUBSCRIBE_PROMPT @ [CHR 0x0A] @ ''https://t.me/x'') (Some HTML) None],
      Inr PromptSent)
   \<and> snd (get_material (world_of (Unrecognized ''pending'')) example_config 7) = Inr PromptSent"
proof -
  have "get_chat_member (world_of LEFT) (target_chat_id example_config) 7 = Inr LEFT"
    and "LEFT \<notin> {OWNER, ADMINISTRATOR, MEMBER}"
    by (simp_all add: world_defs)
  from not_subscribed_never_gets_material [OF this]
  have left: "get_material (world_of LEFT) example_config 7 =
     ([GetChatMember (IntId (- 100123)) 7 (Inr LEFT), LogDebug 7 LEFT (IntId (- 100123)),
       SendMessage 7 (SUBSCRIBE_PROMPT @ [CHR 0x0A] @ ''https://t.me/x'') (Some HTML) None],
      Inr PromptSent)"
    by (simp add: world_defs config_defs with_link_def Let_def)
  have "get_chat_member (world_of (Unrecognized ''pending'')) (target_chat_id example_config) 7
          = Inr (Unrecognized ''pending'')"
    and "Unrecognized ''pending'' \<notin> {OWNER, ADMINISTRATOR, MEMBER}"
    by (simp_all add: world_defs)
  from not_subscribed_never_gets_material [OF this]
  have "snd (get_material (world_of (Unrecognized ''pending'')) example_config 7)
          = Inr PromptSent"
    by (simp add: world_defs Let_def)
  with left show ?thesis by simp
qed

text \<open>
  Claim C1 as stated says the handler never throws. It does when both
  \<open>send_message\<close> calls raise: the prompt's failure is caught by the outer handler,
  the failure of the handler's own reply is not.
\<close>

theorem not_subscribed_can_raise:
  "get_chat_member (sends_fail (world_of LEFT)) (target_chat_id example_config) 7 = Inr LEFT
   \<and> LEFT \<notin> {OWNER, ADMINISTRATOR, MEMBER}
   \<and> snd (get_material (sends_fail (world_of LEFT)) example_config 7) = Inl network_down"
  by (simp add: handler_defs world_defs is_subscribed_iff)

section \<open>Subscribed users\<close>

text \<open>
  Claim C2, as amended. For every status in \<open>{OWNER, ADMINISTRATOR, MEMBER}\<close>, when the
  send of the material succeeds (\<open>send_document\<close>, if the configured file exists and
  opens; \<open>send_message\<close> with the text, if no file is configured or it is missing),
  the handler ends with \<open>MaterialSent\<close>, and that send is the only send operation it
  invokes.
\<close>

theorem subscribed_material_sent_once:
  assumes "get_chat_member w (target_chat_id cfg) user_id = Inr s"
    and "s \<in> {OWNER, ADMINISTRATOR, MEMBER}"
    and "case material_file_path cfg of
           Path p \<Rightarrow>
             Path_exists w p = Inr True \<and> Path_open w p = None \<and>
             send_document w user_id p (Path_name w p) (or_None (material_text cfg)) = None
             \<or>
             Path_exists w p = Inr False \<and>
             send_message w 0 user_id (py_or (material_text cfg) DEFAULT_MATERIAL_TEXT) None
               = None
         | _ \<Rightarrow>
             send_message w 0 user_id (py_or (material_text cfg) DEFAULT_MATERIAL_TEXT) None
               = None"
  shows "(\<exists>k. snd (get_material w cfg user_id) = Inr (MaterialSent k))
         \<and> length (sends (fst (get_material w cfg user_id))) = 1
         \<and> delivered (fst (get_material w cfg user_id)) = sends (fst (get_material w cfg user_id))"
proof -
  from assms(2) have "is_subscribed s"
    by (auto simp: is_subscribed_iff)
  note body = try_body_subscribed [OF assms(1) this]
  show ?thesis
  proof (cases "material_file_path cfg")
    case (Path p)
    with assms(3) consider
        (document) "Path_exists w p = Inr True" "Path_open w p = None"
          "send_document w user_id p (Path_name w p) (or_None (material_text cfg)) = None"
      | (plain) "Path_exists w p = Inr False"
          "send_message w 0 user_id (py_or (material_text cfg) DEFAULT_MATERIAL_TEXT) None = None"
      by auto
    then show ?thesis
    proof cases
      case document
      with body Path show ?thesis
        by (simp add: get_material_def after_def send_file_def sends_def delivered_def)
    next
      case plain
      with body Path show ?thesis
        by (simp add: get_material_def after_def send_text_def sends_def delivered_def)
    qed
  next
    case Unset
    with body assms(3) show ?thesis
      by (simp add: get_material_def after_def send_text_def sends_def delivered_def)
  next
    case EmptyStr
    with body assms(3) show ?thesis
      by (simp add: get_material_def after_def send_text_def sends_def delivered_def)
  qed
qed

text \<open>The spec's example: user A is a member and gets the text, in one send.\<close>

theorem subscribed_material_sent_once_witness:
  "get_chat_member (world_of MEMBER) (target_chat_id example_config) 7 = Inr MEMBER
   \<and> snd (get_material (world_of MEMBER) example_config 7) = Inr (MaterialSent Text)
   \<and> length (sends (fst (get_material (world_of MEMBER) example_config 7))) = 1
   \<and> delivered (fst (get_material (world_of MEMBER) example_config 7))
       = [SendMessage 7 ''Thanks!'' None None]"
proof -
  have q: "get_chat_member (world_of MEMBER) (target_chat_id example_config) 7 = Inr MEMBER"
    and s: "MEMBER \<in> {OWNER, ADMINISTRATOR, MEMBER}"
    and first: "case material_file_path example_config of
           Path p \<Rightarrow>
             Path_exists (world_of MEMBER) p = Inr True \<and> Path_open (world_of MEMBER) p = None \<and>
             send_document (world_of MEMBER) 7 p (Path_name (world_of MEMBER) p)
               (or_None (material_text example_config)) = None
             \<or>
             Path_exists (world_of MEMBER) p = Inr False \<and>
             send_message (world_of MEMBER) 0 7
               (py_or (material_text example_config) DEFAULT_MATERIAL_TEXT) None = None
         | _ \<Rightarrow>
             send_message (world_of MEMBER) 0 7
               (py_or (material_text example_config) DEFAULT_MATERIAL_TEXT) None = None"
    by (simp_all add: world_defs config_defs)
  have run: "get_material (world_of MEMBER) example_config 7 =
      ([GetChatMember (IntId (- 100123)) 7 (Inr MEMBER), LogDebug 7 MEMBER (IntId (- 100123)),
        SendMessage 7 ''Thanks!'' None None], Inr (MaterialSent Text))"
    by (simp add: handler_defs world_defs config_defs is_subscribed_iff py_or_def)
  from subscribed_material_sent_once [OF q s first] q run show ?thesis
    by (simp add: delivered_def)
qed

text \<open>
  Claim C2 as stated says never both a \<open>send_document\<close> and a \<open>send_message\<close>.
  When \<open>send_document\<close> raises, the handler of line 179 sends the error notice with
  \<open>send_message\<close>: both are invoked.
\<close>

theorem failed_document_sends_twice:
  "get_chat_member (document_fails (world_of MEMBER)) (target_chat_id file_config) 7 = Inr MEMBER
   \<and> sends (fst (get_material (document_fails (world_of MEMBER)) file_config 7)) =
       [SendDocument 7 ''material.pdf'' ''material.pdf'' (Some ''Thanks!'') (Some network_down),
        SendMessage 7 FILE_ERROR_TEXT None None]
   \<and> snd (get_material (document_fails (world_of MEMBER)) file_config 7)
       = Inr (MaterialSent File)"
  by (simp add: handler_defs world_defs config_defs is_subscribed_iff or_None_def sends_def)

text \<open>
  Claim C4, as amended. For every status in \<open>{OWNER, ADMINISTRATOR, MEMBER}\<close>, if the
  material file is configured, exists and opens, the handler sends it with
  \<open>send_document\<close>, under its own name, with \<open>material_text\<close> as the caption when
  that text is not empty and no caption otherwise; the file is closed afterwards. When
  the call succeeds nothing else is sent. When it raises, the exception is logged and the
  error notice is sent as a plain message; \<open>material_text\<close> is never sent as a message
  of its own.
\<close>

theorem existing_file_sent_as_document:
  assumes "get_chat_member w (target_chat_id cfg) user_id = Inr s"
    and "s \<in> {OWNER, ADMINISTRATOR, MEMBER}"
    and "material_file_path cfg = Path p"
    and "Path_exists w p = Inr True"
    and "Path_open w p = None"
  shows "get_material w cfg user_id =
     (let chat = target_chat_id cfg;
          caption = (case material_text cfg of
                       None \<Rightarrow> None
                     | Some t \<Rightarrow> if t = [] then None else Some t);
          r = send_document w user_id p (Path_name w p) caption;
          tr = [GetChatMember chat user_id (Inr s), LogDebug user_id s chat,
                Exists p (Inr True), Open p None,
                SendDocument user_id p (Path_name w p) caption r, Close p]
      in case r of
           None \<Rightarrow> (tr, Inr (MaterialSent File))
         | Some e \<Rightarrow>
             (let r1 = send_message w 0 user_id FILE_ERROR_TEXT None;
                  tr1 = tr @ [LogException e, SendMessage user_id FILE_ERROR_TEXT None r1]
              in case r1 of
                   None \<Rightarrow> (tr1, Inr (MaterialSent File))
                 | Some e1 \<Rightarrow>
                     (let reply = with_link CANNOT_VERIFY_TEXT (channel_invite_link cfg);
                          r2 = send_message w 1 user_id reply None
                      in (tr1 @ [LogWarning user_id e1, SendMessage user_id reply None r2],
                          case r2 of None \<Rightarrow> Inr ErrorReported | Some e2 \<Rightarrow> Inl e2))))"
proof -
  from assms(2) have "is_subscribed s"
    by (auto simp: is_subscribed_iff)
  from try_body_subscribed [OF assms(1) this] assms(3,4)
  have "try_body w cfg user_id =
      after [GetChatMember (target_chat_id cfg) user_id (Inr s),
             LogDebug user_id s (target_chat_id cfg), Exists p (Inr True)]
        (send_file w cfg user_id p)"
    by (simp add: after_def split: prod.splits)
  with assms(5) show ?thesis
    by (simp add: get_material_def after_def send_file_def or_None_def Let_def
        split: option.splits)
qed

text \<open>An administrator gets the file, captioned with the configured text.\<close>

theorem existing_file_sent_as_document_witness:
  "material_file_path file_config = Path ''material.pdf''
   \<and> Path_exists (world_of ADMINISTRATOR) ''material.pdf'' = Inr True
   \<and> Path_open (world_of ADMINISTRATOR) ''material.pdf'' = None
   \<and> get_material (world_of ADMINISTRATOR) file_config 7 =
       ([GetChatMember (IntId (- 100123)) 7 (Inr ADMINISTRATOR),
         LogDebug 7 ADMINISTRATOR (IntId (- 100123)),
         Exists ''material.pdf'' (Inr True), Open ''material.pdf'' None,
         SendDocument 7 ''material.pdf'' ''material.pdf'' (Some ''Thanks!'') None,
         Close ''material.pdf''],
        Inr (MaterialSent File))"
proof -
  have q: "get_chat_member (world_of ADMINISTRATOR) (target_chat_id file_config) 7
             = Inr ADMINISTRATOR"
    and s: "ADMINISTRATOR \<in> {OWNER, ADMINISTRATOR, MEMBER}"
    and f: "material_file_path file_config = Path ''material.pdf''"
    and x: "Path_exists (world_of ADMINISTRATOR) ''material.pdf'' = Inr True"
    and opened: "Path_open (world_of ADMINISTRATOR) ''material.pdf'' = None"
    by (simp_all add: world_defs config_defs)
  from existing_file_sent_as_document [OF q s f x opened] f x opened show ?thesis
    by (simp add: world_defs config_defs Let_def)
qed

text \<open>
  Claim C4 as stated needs only that the file exists. A path that exists and cannot be
  opened (a directory, a file without read permission) is not sent: \<open>open\<close> raises
  inside the inner \<open>try\<close>, and the user gets the error notice as a plain message.
\<close>

theorem unreadable_file_not_sent:
  "get_chat_member (open_fails (world_of MEMBER)) (target_chat_id file_config) 7 = Inr MEMBER
   \<and> material_file_path file_config = Path ''material.pdf''
   \<and> Path_exists (open_fails (world_of MEMBER)) ''material.pdf'' = Inr True
   \<and> get_material (open_fails (world_of MEMBER)) file_config 7 =
       ([GetChatMember (IntId (- 100123)) 7 (Inr MEMBER), LogDebug 7 MEMBER (IntId (- 100123)),
         Exists ''material.pdf'' (Inr True),
         Open ''material.pdf'' (Some (Exception ''IsADirectoryError'')),
         LogException (Exception ''IsADirectoryError''),
         SendMessage 7 FILE_ERROR_TEXT None None],
        Inr (MaterialSent File))"
  by (simp add: handler_defs world_defs config_defs is_subscribed_iff)

text \<open>
  Claim C5, as amended. For every status in \<open>{OWNER, ADMINISTRATOR, MEMBER}\<close>, if the
  material file is configured and \<open>exists()\<close> answers \<open>False\<close>, nothing is raised for
  the missing file: the handler sends \<open>material_text\<close> as a plain message, or the
  default acknowledgement when that text is absent or empty, and ends with
  \<open>MaterialSent Text\<close> when the send succeeds. When that \<open>send_message\<close> raises, the
  outer handler logs a warning and sends the could-not-verify reply, and the handler
  raises only when this second call fails too.
\<close>

theorem missing_file_falls_back_to_text:
  assumes "get_chat_member w (target_chat_id cfg) user_id = Inr s"
    and "s \<in> {OWNER, ADMINISTRATOR, MEMBER}"
    and "material_file_path cfg = Path p"
    and "Path_exists w p = Inr False"
  shows "get_material w cfg user_id =
     (let chat = target_chat_id cfg;
          text = (case material_text cfg of
                    None \<Rightarrow> DEFAULT_MATERIAL_TEXT
                  | Some t \<Rightarrow> if t = [] then DEFAULT_MATERIAL_TEXT else t);
          r = send_message w 0 user_id text None;
          tr = [GetChatMember chat user_id (Inr s), LogDebug user_id s chat,
                Exists p (Inr False), SendMessage user_id text None r]
      in case r of
           None \<Rightarrow> (tr, Inr (MaterialSent Text))
         | Some e \<Rightarrow>
             (let reply = with_link CANNOT_VERIFY_TEXT (channel_invite_link cfg);
                  r' = send_message w 1 user_id reply None
              in (tr @ [LogWarning user_id e, SendMessage user_id reply None r'],
                  case r' of None \<Rightarrow> Inr ErrorReported | Some e' \<Rightarrow> Inl e')))"
proof -
  from assms(2) have "is_subscribed s"
    by (auto simp: is_subscribed_iff)
  from try_body_subscribed [OF assms(1) this] assms(3,4)
  have "try_body w cfg user_id =
      after [GetChatMember (target_chat_id cfg) user_id (Inr s),
             LogDebug user_id s (target_chat_id cfg), Exists p (Inr False)]
        (send_text w cfg user_id)"
    by (simp add: after_def split: prod.splits)
  then show ?thesis
    by (simp add: get_material_def after_def send_text_def py_or_def Let_def
        split: option.splits)
qed

text \<open>
  With the file gone a member gets the configured text, and the default acknowledgement
  when the text is empty.
\<close>

theorem missing_file_falls_back_to_text_witness:
  "Path_exists (file_missing (world_of MEMBER)) ''material.pdf'' = Inr False
   \<and> get_material (file_missing (world_of MEMBER)) file_config 7 =
       ([GetChatMember (IntId (- 100123)) 7 (Inr MEMBER), LogDebug 7 MEMBER (IntId (- 100123)),
         Exists ''material.pdf'' (Inr False), SendMessage 7 ''Thanks!'' None None],
        Inr (MaterialSent Text))
   \<and> get_material (file_missing (world_of MEMBER)) (file_config\<lparr>material_text := Some []\<rparr>) 7 =
       ([GetChatMember (IntId (- 100123)) 7 (Inr MEMBER), LogDebug 7 MEMBER (IntId (- 100123)),
         Exists ''material.pdf'' (Inr False), SendMessage 7 DEFAULT_MATERIAL_TEXT None None],
        Inr (MaterialSent Text))"
proof -
  let ?w = "file_missing (world_of MEMBER)"
  let ?c = "file_config\<lparr>material_text := Some []\<rparr>"
  have s: "MEMBER \<in> {OWNER, ADMINISTRATOR, MEMBER}"
    and x: "Path_exists ?w ''material.pdf'' = Inr False"
    and q: "get_chat_member ?w (target_chat_id file_config) 7 = Inr MEMBER"
    and f: "material_file_path file_config = Path ''material.pdf''"
    and q': "get_chat_member ?w (target_chat_id ?c) 7 = Inr MEMBER"
    and f': "material_file_path ?c = Path ''material.pdf''"
    by (simp_all add: world_defs config_defs)
  from missing_file_falls_back_to_text [OF q s f x]
  have "get_material ?w file_config 7 =
       ([GetChatMember (IntId (- 100123)) 7 (Inr MEMBER), LogDebug 7 MEMBER (IntId (- 100123)),
         Exists ''material.pdf'' (Inr False), SendMessage 7 ''Thanks!'' None None],
        Inr (MaterialSent Text))"
    by (simp add: world_defs config_defs Let_def)
  moreover from missing_file_falls_back_to_text [OF q' s f' x]
  have "get_material ?w ?c 7 =
       ([GetChatMember (IntId (- 100123)) 7 (Inr MEMBER), LogDebug 7 MEMBER (IntId (- 100123)),
         Exists ''material.pdf'' (Inr False), SendMessage 7 DEFAULT_MATERIAL_TEXT None None],
        Inr (MaterialSent Text))"
    by (simp add: world_defs config_defs Let_def)
  ultimately show ?thesis using x by simp
qed

text \<open>
  Claim C5 as stated says the handler does not raise and the user never goes without a
  reply. With the file gone and \<open>send_message\<close> raising on both calls, no send is
  delivered and the second exception leaves the handler.
\<close>

theorem missing_file_can_raise:
  "get_chat_member (file_missing (sends_fail (world_of MEMBER))) (target_chat_id file_config) 7
     = Inr MEMBER
   \<and> material_file_path file_config = Path ''material.pdf''
   \<and> Path_exists (file_missing (sends_fail (world_of MEMBER))) ''material.pdf'' = Inr False
   \<and> get_material (file_missing (sends_fail (world_of MEMBER))) file_config 7 =
       ([GetChatMember (IntId (- 100123)) 7 (Inr MEMBER), LogDebug 7 MEMBER (IntId (- 100123)),
         Exists ''material.pdf'' (Inr False),
         SendMessage 7 ''Thanks!'' None (Some network_down),
         LogWarning 7 network_down,
         SendMessage 7 (CANNOT_VERIFY_TEXT @ [CHR 0x0A] @ ''https://t.me/x'') None
           (Some network_down)],
        Inl network_down)"
  by (simp add: handler_defs world_defs config_defs is_subscribed_iff py_or_def with_link_def)

section \<open>Replies on failure\<close>

text \<open>
  Claim C3, as amended. If the membership query raises, whatever the exception, it is
  caught: the handler logs exactly one warning, which carries that exception, and makes
  exactly one send, the could-not-verify reply as a plain \<open>send_message\<close>. The handler
  ends with \<open>ErrorReported\<close> when that call succeeds; when the call raises, its
  exception leaves the handler.
\<close>

theorem query_failure_is_reported:
  assumes "get_chat_member w (target_chat_id cfg) user_id = Inl e"
  shows "get_material w cfg user_id =
     (let reply = with_link CANNOT_VERIFY_TEXT (channel_invite_link cfg);
          r = send_message w 0 user_id reply None
      in ([GetChatMember (target_chat_id cfg) user_id (Inl e), LogWarning user_id e,
           SendMessage user_id reply None r],
          case r of None \<Rightarrow> Inr ErrorReported | Some e' \<Rightarrow> Inl e'))"
  using try_body_query_fails [OF assms] by (simp add: get_material_def Let_def)

theorem query_failure_is_reported_witness:
  "get_chat_member (query_fails (world_of MEMBER)) (target_chat_id example_config) 7
     = Inl (Exception ''BadRequest'')
   \<and> get_material (query_fails (world_of MEMBER)) example_config 7 =
       ([GetChatMember (IntId (- 100123)) 7 (Inl (Exception ''BadRequest'')),
         LogWarning 7 (Exception ''BadRequest''),
         SendMessage 7 (CANNOT_VERIFY_TEXT @ [CHR 0x0A] @ ''https://t.me/x'') None None],
        Inr ErrorReported)"
proof -
  have q: "get_chat_member (query_fails (world_of MEMBER)) (target_chat_id example_config) 7
             = Inl (Exception ''BadRequest'')"
    by (simp add: world_defs)
  from query_failure_is_reported [OF q] q show ?thesis
    by (simp add: world_defs config_defs with_link_def Let_def)
qed

text \<open>
  Claim C3 as stated says the handler always sends one reply and nothing propagates.
  When the transport fails for the query and for the reply, no reply is delivered and
  the reply's exception leaves the handler.
\<close>

theorem query_failure_reply_can_raise:
  "get_chat_member (query_fails (sends_fail (world_of MEMBER))) (target_chat_id example_config) 7
     = Inl (Exception ''BadRequest'')
   \<and> delivered (fst (get_material (query_fails (sends_fail (world_of MEMBER))) example_config 7))
       = []
   \<and> snd (get_material (query_fails (sends_fail (world_of MEMBER))) example_config 7)
       = Inl network_down"
  by (simp add: handler_defs world_defs config_defs delivered_def)

text \<open>
  Claim C6. When the user is not subscribed or the membership query raises, the handler
  sends messages only, at least one, and every one of them is the subscription prompt or
  the could-not-verify reply. If the invite link is configured (set and not empty) the
  text is that sentence, a newline and the link, so it contains the link; if it is not
  configured the text is the bare sentence, with nothing in the link's place.
\<close>

theorem replies_carry_invite_link:
  assumes "case get_chat_member w (target_chat_id cfg) user_id of
             Inl e \<Rightarrow> True
           | Inr s \<Rightarrow> s \<notin> {OWNER, ADMINISTRATOR, MEMBER}"
  shows "message_texts (fst (get_material w cfg user_id)) \<noteq> []
     \<and> length (sends (fst (get_material w cfg user_id)))
         = length (message_texts (fst (get_material w cfg user_id)))
     \<and> (\<forall>t \<in> set (message_texts (fst (get_material w cfg user_id))).
          case channel_invite_link cfg of
            None \<Rightarrow> t = SUBSCRIBE_PROMPT \<or> t = CANNOT_VERIFY_TEXT
          | Some l \<Rightarrow>
              if l = [] then t = SUBSCRIBE_PROMPT \<or> t = CANNOT_VERIFY_TEXT
              else (t = SUBSCRIBE_PROMPT @ [CHR 0x0A] @ l \<or> t = CANNOT_VERIFY_TEXT @ [CHR 0x0A] @ l)
                   \<and> sublist l t)"
proof -
  let ?link = "channel_invite_link cfg"
  let ?ok = "\<lambda>t. case ?link of
            None \<Rightarrow> t = SUBSCRIBE_PROMPT \<or> t = CANNOT_VERIFY_TEXT
          | Some l \<Rightarrow>
              if l = [] then t = SUBSCRIBE_PROMPT \<or> t = CANNOT_VERIFY_TEXT
              else (t = SUBSCRIBE_PROMPT @ [CHR 0x0A] @ l \<or> t = CANNOT_VERIFY_TEXT @ [CHR 0x0A] @ l)
                   \<and> sublist l t"
  have sub: "sublist l (x @ [CHR 0x0A] @ l)" for l x :: string
    using sublist_appendI [of l "x @ [CHR 0x0A]" "[]"] by simp
  have reply: "?ok (with_link CANNOT_VERIFY_TEXT ?link)"
    using sub by (simp add: with_link_def split: option.splits)
  have prompt: "?ok (with_link SUBSCRIBE_PROMPT ?link)"
    using sub by (simp add: with_link_def split: option.splits)
  show ?thesis
  proof (cases "get_chat_member w (target_chat_id cfg) user_id")
    case (Inl e)
    have "message_texts (fst (get_material w cfg user_id)) = [with_link CANNOT_VERIFY_TEXT ?link]"
      and "length (sends (fst (get_material w cfg user_id))) = 1"
      using try_body_query_fails [OF Inl]
      by (simp_all add: get_material_def Let_def sends_def message_texts_def map_filter_simps)
    with reply show ?thesis
      by (auto split: option.splits if_splits)
  next
    case (Inr s)
    with assms have "\<not> is_subscribed s"
      by (simp add: is_subscribed_iff)
    note body = try_body_not_subscribed [OF Inr this]
    show ?thesis
    proof (cases "send_message w 0 user_id (with_link SUBSCRIBE_PROMPT ?link) (Some HTML)")
      case None
      with body
      have "message_texts (fst (get_material w cfg user_id)) = [with_link SUBSCRIBE_PROMPT ?link]"
        and "length (sends (fst (get_material w cfg user_id))) = 1"
        by (simp_all add: get_material_def after_def send_prompt_def Let_def sends_def
            message_texts_def map_filter_simps)
      with prompt show ?thesis
        by (auto split: option.splits if_splits)
    next
      case (Some e)
      with body
      have "message_texts (fst (get_material w cfg user_id)) =
              [with_link SUBSCRIBE_PROMPT ?link, with_link CANNOT_VERIFY_TEXT ?link]"
        and "length (sends (fst (get_material w cfg user_id))) = 2"
        by (simp_all add: get_material_def after_def send_prompt_def Let_def sends_def
            message_texts_def map_filter_simps)
      with prompt reply show ?thesis
        by (auto split: option.splits if_splits)
    qed
  qed
qed

text \<open>
  The spec's example: the reply to user B, who left, contains the link. Without a link
  the reply is the bare prompt.
\<close>

theorem replies_carry_invite_link_witness:
  "message_texts (fst (get_material (world_of LEFT) example_config 7))
     = [SUBSCRIBE_PROMPT @ [CHR 0x0A] @ ''https://t.me/x'']
   \<and> sublist ''https://t.me/x'' (SUBSCRIBE_PROMPT @ [CHR 0x0A] @ ''https://t.me/x'')
   \<and> message_texts
        (fst (get_material (world_of LEFT) (example_config\<lparr>channel_invite_link := None\<rparr>) 7))
     = [SUBSCRIBE_PROMPT]"
proof -
  let ?c = "example_config\<lparr>channel_invite_link := None\<rparr>"
  have q: "case get_chat_member (world_of LEFT) (target_chat_id example_config) 7 of
             Inl e \<Rightarrow> True
           | Inr s \<Rightarrow> s \<notin> {OWNER, ADMINISTRATOR, MEMBER}"
    by (simp add: world_defs)
  have texts: "message_texts (fst (get_material (world_of LEFT) example_config 7))
        = [SUBSCRIBE_PROMPT @ [CHR 0x0A] @ ''https://t.me/x'']"
    and bare: "message_texts (fst (get_material (world_of LEFT) ?c 7)) = [SUBSCRIBE_PROMPT]"
    by (simp_all add: handler_defs world_defs config_defs is_subscribed_iff with_link_def
        message_texts_def map_filter_simps)
  from replies_carry_invite_link [OF q]
  have "\<forall>t \<in> set (message_texts (fst (get_material (world_of LEFT) example_config 7))).
          sublist ''https://t.me/x'' t"
    by (simp add: config_defs)
  with texts bare show ?thesis by simp
qed

text \<open>
  Claim C7, as amended. On every path of the handler at most one send is delivered, of
  up to three that are attempted. The handler ends normally exactly when one send was
  delivered. It raises exactly when none was: the last call was then the outer handler's
  could-not-verify reply, and the exception is the one that call raised.
\<close>

theorem at_most_one_reply_delivered:
  "(case snd (get_material w cfg user_id) of
      Inr out \<Rightarrow> length (delivered (fst (get_material w cfg user_id))) = 1
    | Inl e \<Rightarrow>
        delivered (fst (get_material w cfg user_id)) = [] \<and>
        last (fst (get_material w cfg user_id)) =
          SendMessage user_id (with_link CANNOT_VERIFY_TEXT (channel_invite_link cfg)) None
            (Some e))
   \<and> 1 \<le> length (sends (fst (get_material w cfg user_id)))
   \<and> length (sends (fst (get_material w cfg user_id))) \<le> 3"
proof -
  obtain tr n res where run: "try_body w cfg user_id = (tr, n, res)"
    by (cases "try_body w cfg user_id") auto
  with settled_try_body [of w cfg user_id]
  have bound: "length (sends tr) \<le> 2"
    and res: "case res of Inr out \<Rightarrow> length (delivered tr) = 1 | Inl e \<Rightarrow> delivered tr = []"
    by (auto simp: settled_def split: sum.splits)
  have le: "length (delivered tr) \<le> length (sends tr)"
    unfolding sends_def delivered_def
    by (induction tr) (auto elim: is_delivered.elims)
  show ?thesis
  proof (cases res)
    case (Inr out)
    with run res bound le show ?thesis
      by (simp add: get_material_def)
  next
    case (Inl exc)
    with run res bound show ?thesis
      by (simp add: get_material_def Let_def sends_def delivered_def split: option.splits)
  qed
qed

text \<open>
  A banned user whose prompt could not be sent: two sends are attempted, the second
  is delivered.
\<close>

theorem at_most_one_reply_delivered_witness:
  "snd (get_material (first_send_fails (world_of BANNED)) example_config 7) = Inr ErrorReported
   \<and> length (delivered (fst (get_material (first_send_fails (world_of BANNED)) example_config 7)))
       = 1
   \<and> length (sends (fst (get_material (first_send_fails (world_of BANNED)) example_config 7)))
       = 2"
proof -
  have "snd (get_material (first_send_fails (world_of BANNED)) example_config 7)
          = Inr ErrorReported"
    and "length (sends (fst (get_material (first_send_fails (world_of BANNED)) example_config 7)))
          = 2"
    by (simp_all add: handler_defs world_defs is_subscribed_iff sends_def)
  with at_most_one_reply_delivered [of "first_send_fails (world_of BANNED)" example_config 7]
  show ?thesis by simp
qed

text \<open>
  Claim C7 as stated says exactly one reply on every path. With the transport down, an
  owner's request for the file makes three sends (the document, the error notice, the
  could-not-verify reply), none is delivered, and the last exception leaves the handler.
\<close>

theorem request_left_unanswered:
  "sends (fst (get_material (document_fails (sends_fail (world_of OWNER))) file_config 7)) =
       [SendDocument 7 ''material.pdf'' ''material.pdf'' (Some ''Thanks!'') (Some network_down),
        SendMessage 7 FILE_ERROR_TEXT None (Some network_down),
        SendMessage 7 (CANNOT_VERIFY_TEXT @ [CHR 0x0A] @ ''https://t.me/x'') None
          (Some network_down)]
   \<and> delivered (fst (get_material (document_fails (sends_fail (world_of OWNER))) file_config 7))
       = []
   \<and> snd (get_material (document_fails (sends_fail (world_of OWNER))) file_config 7)
       = Inl network_down"
  by (simp add: handler_defs world_defs config_defs is_subscribed_iff or_None_def with_link_def
      sends_def delivered_def)

text \<open>
  Claim C9, as amended. The handler of line 203 catches every exception that leaves the
  body of the outer \<open>try\<close>, not only a failure of the membership query: a failed send
  of the prompt to a user who is not subscribed, a failed send of the text to a subscribed
  user (with no file configured, or with the file missing), a failing \<open>exists()\<close>, and
  a failed send of the file-error notice. Each of them is logged as a warning and
  followed by an attempt to send the could-not-verify reply, with the invite link when
  configured; the handler ends with \<open>ErrorReported\<close> if that attempt succeeds and
  raises its exception if not. A failure to open or to send the document does not reach
  that handler: the handler of line 179 logs it and sends the file-error notice, and
  when the notice is delivered there is no warning and no could-not-verify reply.
\<close>

theorem outer_handler_catches_later_failures:
  "let chat = target_chat_id cfg;
       q = get_chat_member w chat user_id;
       text = py_or (material_text cfg) DEFAULT_MATERIAL_TEXT;
       prompt = with_link SUBSCRIBE_PROMPT (channel_invite_link cfg);
       reply = with_link CANNOT_VERIFY_TEXT (channel_invite_link cfg);
       caption = or_None (material_text cfg);
       pre = (\<lambda>s. [GetChatMember chat user_id (Inr s), LogDebug user_id s chat]);
       handled = (\<lambda>tr n exc.
         (tr @ [LogWarning user_id exc,
                SendMessage user_id reply None (send_message w n user_id reply None)],
          case send_message w n user_id reply None of
            None \<Rightarrow> Inr ErrorReported
          | Some e \<Rightarrow> Inl e))
   in (\<forall>e. q = Inl e \<longrightarrow>
         get_material w cfg user_id = handled [GetChatMember chat user_id (Inl e)] 0 e)
    \<and> (\<forall>s e. q = Inr s \<and> s \<notin> {OWNER, ADMINISTRATOR, MEMBER}
         \<and> send_message w 0 user_id prompt (Some HTML) = Some e \<longrightarrow>
         get_material w cfg user_id =
           handled (pre s @ [SendMessage user_id prompt (Some HTML) (Some e)]) 1 e)
    \<and> (\<forall>s e. q = Inr s \<and> s \<in> {OWNER, ADMINISTRATOR, MEMBER}
         \<and> material_file_path cfg \<in> {Unset, EmptyStr}
         \<and> send_message w 0 user_id text None = Some e \<longrightarrow>
         get_material w cfg user_id =
           handled (pre s @ [SendMessage user_id text None (Some e)]) 1 e)
    \<and> (\<forall>s p e. q = Inr s \<and> s \<in> {OWNER, ADMINISTRATOR, MEMBER}
         \<and> material_file_path cfg = Path p \<and> Path_exists w p = Inr False
         \<and> send_message w 0 user_id text None = Some e \<longrightarrow>
         get_material w cfg user_id =
           handled (pre s @ [Exists p (Inr False), SendMessage user_id text None (Some e)]) 1 e)
    \<and> (\<forall>s p e. q = Inr s \<and> s \<in> {OWNER, ADMINISTRATOR, MEMBER}
         \<and> material_file_path cfg = Path p \<and> Path_exists w p = Inl e \<longrightarrow>
         get_material w cfg user_id = handled (pre s @ [Exists p (Inl e)]) 0 e)
    \<and> (\<forall>s p e0 attempt. q = Inr s \<and> s \<in> {OWNER, ADMINISTRATOR, MEMBER}
         \<and> material_file_path cfg = Path p \<and> Path_exists w p = Inr True
         \<and> (Path_open w p = Some e0 \<and> attempt = [Open p (Some e0)]
            \<or> Path_open w p = None
              \<and> send_document w user_id p (Path_name w p) caption = Some e0
              \<and> attempt = [Open p None,
                            SendDocument user_id p (Path_name w p) caption (Some e0),
                            Close p]) \<longrightarrow>
         (let notice = send_message w 0 user_id FILE_ERROR_TEXT None;
              tr = pre s @ [Exists p (Inr True)] @ attempt @
                   [LogException e0, SendMessage user_id FILE_ERROR_TEXT None notice]
          in get_material w cfg user_id =
               (case notice of
                  None \<Rightarrow> (tr, Inr (MaterialSent File))
                | Some e \<Rightarrow> handled tr 1 e)))"
proof -
  have subscribed: "is_subscribed s" if "s \<in> {OWNER, ADMINISTRATOR, MEMBER}" for s
    using that by (auto simp: is_subscribed_iff)
  have other: "\<not> is_subscribed s" if "s \<notin> {OWNER, ADMINISTRATOR, MEMBER}" for s
    using that by (simp add: is_subscribed_iff)
  show ?thesis
    unfolding Let_def
  proof (intro conjI allI impI, goal_cases)
    case (1 e)
    then show ?case
      by (simp add: get_material_def try_body_query_fails Let_def)
  next
    case (2 s e)
    then show ?case
      by (simp add: get_material_def try_body_not_subscribed other after_def send_prompt_def
          Let_def)
  next
    case (3 s e)
    then show ?case
      by (auto simp: get_material_def try_body_subscribed subscribed after_def send_text_def
          Let_def)
  next
    case (4 s p e)
    then show ?case
      by (simp add: get_material_def try_body_subscribed subscribed after_def send_text_def
          Let_def)
  next
    case (5 s p e)
    then show ?case
      by (simp add: get_material_def try_body_subscribed subscribed after_def Let_def)
  next
    case (6 s p e0 attempt)
    then have body: "try_body w cfg user_id =
        after [GetChatMember (target_chat_id cfg) user_id (Inr s),
               LogDebug user_id s (target_chat_id cfg), Exists p (Inr True)]
          (send_file w cfg user_id p)"
      by (simp add: try_body_subscribed subscribed after_def split: prod.splits)
    from 6 consider
        (unopened) "Path_open w p = Some e0" "attempt = [Open p (Some e0)]"
      | (unsent) "Path_open w p = None"
          "send_document w user_id p (Path_name w p) (or_None (material_text cfg)) = Some e0"
          "attempt = [Open p None,
             SendDocument user_id p (Path_name w p) (or_None (material_text cfg)) (Some e0),
             Close p]"
      by auto
    then show ?case
    proof cases
      case unopened
      with body show ?thesis
        by (simp add: get_material_def after_def send_file_def Let_def split: option.splits)
    next
      case unsent
      with body show ?thesis
        by (simp add: get_material_def after_def send_file_def Let_def split: option.splits)
    qed
  qed
qed

text \<open>
  A member whose text could not be sent is told that the subscription could not be
  verified, and the send's exception is what the warning records.
\<close>

theorem outer_handler_catches_later_failures_witness:
  "get_chat_member (first_send_fails (world_of MEMBER)) (target_chat_id example_config) 7
     = Inr MEMBER
   \<and> material_file_path example_config = Unset
   \<and> send_message (first_send_fails (world_of MEMBER)) 0 7 ''Thanks!'' None = Some network_down
   \<and> get_material (first_send_fails (world_of MEMBER)) example_config 7 =
     ([GetChatMember (IntId (- 100123)) 7 (Inr MEMBER), LogDebug 7 MEMBER (IntId (- 100123)),
       SendMessage 7 ''Thanks!'' None (Some network_down),
       LogWarning 7 network_down,
       SendMessage 7 (CANNOT_VERIFY_TEXT @ [CHR 0x0A] @ ''https://t.me/x'') None None],
      Inr ErrorReported)"
proof -
  let ?w = "first_send_fails (world_of MEMBER)"
  have hyps: "get_chat_member ?w (target_chat_id example_config) 7 = Inr MEMBER"
    "material_file_path example_config = Unset"
    "send_message ?w 0 7 ''Thanks!'' None = Some network_down"
    by (simp_all add: world_defs config_defs)
  have more: "py_or (material_text example_config) DEFAULT_MATERIAL_TEXT = ''Thanks!''"
    "send_message ?w 1 7 (with_link CANNOT_VERIFY_TEXT (channel_invite_link example_config)) None
       = None"
    "with_link CANNOT_VERIFY_TEXT (channel_invite_link example_config)
       = CANNOT_VERIFY_TEXT @ [CHR 0x0A] @ ''https://t.me/x''"
    "target_chat_id example_config = IntId (- 100123)"
    by (simp_all add: world_defs config_defs py_or_def with_link_def)
  from outer_handler_catches_later_failures [of example_config ?w 7] hyps more
  have "get_material ?w example_config 7 =
     ([GetChatMember (IntId (- 100123)) 7 (Inr MEMBER), LogDebug 7 MEMBER (IntId (- 100123)),
       SendMessage 7 ''Thanks!'' None (Some network_down),
       LogWarning 7 network_down,
       SendMessage 7 (CANNOT_VERIFY_TEXT @ [CHR 0x0A] @ ''https://t.me/x'') None None],
      Inr ErrorReported)"
    by (simp add: Let_def)
  with hyps show ?thesis by simp
qed

text \<open>
  Claim C9 as stated says that any failure raised after the membership query ends in a
  warning and the could-not-verify reply. An administrator's document that cannot be
  sent does not: the exception is logged by the inner handler, the user gets the
  file-error notice, and the outer handler is never entered.
\<close>

theorem document_failure_stays_inside:
  "get_material (document_fails (world_of ADMINISTRATOR)) file_config 7 =
     ([GetChatMember (IntId (- 100123)) 7 (Inr ADMINISTRATOR),
       LogDebug 7 ADMINISTRATOR (IntId (- 100123)),
       Exists ''material.pdf'' (Inr True), Open ''material.pdf'' None,
       SendDocument 7 ''material.pdf'' ''material.pdf'' (Some ''Thanks!'') (Some network_down),
       Close ''material.pdf'',
       LogException network_down,
       SendMessage 7 FILE_ERROR_TEXT None None],
      Inr (MaterialSent File))
   \<and> message_texts (fst (get_material (document_fails (world_of ADMINISTRATOR)) file_config 7))
       = [FILE_ERROR_TEXT]"
  by (simp add: handler_defs world_defs config_defs is_subscribed_iff or_None_def
      message_texts_def map_filter_simps)

section \<open>Loading the configuration\<close>

text \<open>
  Claim C8, as amended. A setting counts as absent when it is unset or empty.
  \<open>load_config\<close> raises if and only if \<open>load_dotenv()\<close> raises, or the token is
  absent, or the target chat is absent, or the material text and the material file path
  are both absent, or the material file path is present and \<open>Path.expanduser\<close> raises
  for it. In every other case it returns a configuration, which holds the token, the
  material text and the invite link as they were read.
\<close>

theorem load_config_raises_iff:
  "((\<exists>e. load_config os = Inl e) \<longleftrightarrow>
      load_dotenv os \<noteq> None \<or>
      \<not> truthy (getenv os ''TELEGRAM_BOT_TOKEN'') \<or>
      \<not> truthy (getenv os ''TARGET_CHAT_ID'') \<or>
      (\<not> truthy (getenv os ''MATERIAL_TEXT'') \<and> \<not> truthy (getenv os ''MATERIAL_FILE_PATH'')) \<or>
      (\<exists>p e. getenv os ''MATERIAL_FILE_PATH'' = Some p \<and> p \<noteq> [] \<and> expanduser os p = Inl e))
   \<and> (\<forall>cfg. load_config os = Inr cfg \<longrightarrow>
          getenv os ''TELEGRAM_BOT_TOKEN'' = Some (token cfg) \<and>
          material_text cfg = getenv os ''MATERIAL_TEXT'' \<and>
          channel_invite_link cfg = getenv os ''CHANNEL_INVITE_LINK'')"
  by (auto simp: load_config_def truthy_def Let_def split: option.splits sum.splits if_splits)

theorem load_config_raises_iff_witness:
  "\<exists>cfg. load_config example_env = Inr cfg \<and> token cfg = ''123456:ABCDEF''"
proof -
  have "\<not> (\<exists>e. load_config example_env = Inl e)"
    using load_config_raises_iff [of example_env]
    by (simp add: example_env_def truthy_def)
  then obtain cfg where cfg: "load_config example_env = Inr cfg"
    by (cases "load_config example_env") auto
  with load_config_raises_iff [of example_env] have "token cfg = ''123456:ABCDEF''"
    by (simp add: example_env_def)
  with cfg show ?thesis by simp
qed

text \<open>
  Claim C8 as stated says that \<open>load_config\<close> returns whenever the three settings are
  present. With the material file under the home directory of an unknown user,
  \<open>load_dotenv()\<close> returns and \<open>Path(file_path).expanduser()\<close> of line 126 raises
  \<open>RuntimeError\<close>.
\<close>

theorem load_config_expanduser_raises:
  "load_dotenv unknown_home_env = None
   \<and> truthy (getenv unknown_home_env ''TELEGRAM_BOT_TOKEN'')
   \<and> truthy (getenv unknown_home_env ''TARGET_CHAT_ID'')
   \<and> truthy (getenv unknown_home_env ''MATERIAL_FILE_PATH'')
   \<and> load_config unknown_home_env = Inl no_home"
  by (simp add: load_config_def unknown_home_env_def truthy_def Let_def)

text \<open>
  Claim C10. An empty value is treated as an absent one. With an empty token
  \<open>load_config\<close> raises, and does what it does when the variable is unset: once
  \<open>load_dotenv()\<close> has returned, that is the error of the missing token. With an empty
  target chat it raises, and does what it does when the variable is unset; an empty
  material text beside no material file makes it raise, again as if the variable were
  unset.
\<close>

theorem empty_setting_counts_as_absent:
  "(getenv os ''TELEGRAM_BOT_TOKEN'' = Some [] \<longrightarrow>
      (\<exists>e. load_config os = Inl e) \<and>
      load_config (unset os ''TELEGRAM_BOT_TOKEN'') = load_config os \<and>
      (load_dotenv os = None \<longrightarrow> load_config os = Inl TOKEN_MISSING))
   \<and> (getenv os ''TARGET_CHAT_ID'' = Some [] \<longrightarrow>
      (\<exists>e. load_config os = Inl e) \<and>
      load_config (unset os ''TARGET_CHAT_ID'') = load_config os)
   \<and> (getenv os ''MATERIAL_TEXT'' = Some [] \<and> \<not> truthy (getenv os ''MATERIAL_FILE_PATH'') \<longrightarrow>
      (\<exists>e. load_config os = Inl e) \<and>
      load_config (unset os ''MATERIAL_TEXT'') = load_config os)"
  by (auto simp: load_config_def unset_def truthy_def Let_def split: option.splits)

theorem empty_setting_counts_as_absent_witness:
  "load_config (example_env\<lparr>getenv := (getenv example_env)(''TELEGRAM_BOT_TOKEN'' \<mapsto> [])\<rparr>)
     = Inl TOKEN_MISSING
   \<and> load_config (example_env\<lparr>getenv := (getenv example_env)(''TARGET_CHAT_ID'' \<mapsto> [])\<rparr>)
     = Inl TARGET_MISSING
   \<and> load_config (example_env\<lparr>getenv := (getenv example_env)(''MATERIAL_TEXT'' \<mapsto> [])\<rparr>)
     = Inl MATERIAL_MISSING"
proof -
  let ?tok = "example_env\<lparr>getenv := (getenv example_env)(''TELEGRAM_BOT_TOKEN'' \<mapsto> [])\<rparr>"
  let ?tgt = "example_env\<lparr>getenv := (getenv example_env)(''TARGET_CHAT_ID'' \<mapsto> [])\<rparr>"
  let ?txt = "example_env\<lparr>getenv := (getenv example_env)(''MATERIAL_TEXT'' \<mapsto> [])\<rparr>"
  have "load_config ?tok = Inl TOKEN_MISSING"
    using empty_setting_counts_as_absent [of ?tok] by (simp add: example_env_def)
  moreover have "load_config ?tgt = load_config (unset ?tgt ''TARGET_CHAT_ID'')"
    using empty_setting_counts_as_absent [of ?tgt] by simp
  moreover have "load_config (unset ?tgt ''TARGET_CHAT_ID'') = Inl TARGET_MISSING"
    by (simp add: load_config_def unset_def example_env_def truthy_def Let_def)
  moreover have "load_config ?txt = load_config (unset ?txt ''MATERIAL_TEXT'')"
    using empty_setting_counts_as_absent [of ?txt]
    by (simp add: example_env_def truthy_def)
  moreover have "load_config (unset ?txt ''MATERIAL_TEXT'') = Inl MATERIAL_MISSING"
    by (simp add: load_config_def unset_def example_env_def truthy_def Let_def)
  ultimately show ?thesis by simp
qed

end
